theory Spec2Isabelle
  imports Main "HOL-Library.Sublist"
begin

section \<open>Python values, exceptions and the built-in int()\<close>

text \<open>
  The provider of \<^verbatim>\<open>metaflow/metadata/metadata.py\<close> raises two kinds of exception
  of its own: \<^verbatim>\<open>MetaflowInternalError(msg=...)\<close> and \<^verbatim>\<open>ValueError(...)\<close>. The abstract
  backend methods raise \<^verbatim>\<open>NotImplementedError\<close>, and iterating over something that is
  not a list of records raises \<^verbatim>\<open>TypeError\<close>.
\<close>

datatype error =
    MetaflowInternalError string
  | ValueError string
  | TypeError
  | NotImplementedError

text \<open>
  Values that reach \<^verbatim>\<open>int(...)\<close> in the source: the \<^verbatim>\<open>attempt\<close> argument of
  \<^verbatim>\<open>get_object\<close> (documented as an int, given as a string by callers) and the
  \<^verbatim>\<open>value\<close> of a metadata record (a string in the records the provider builds, an
  integer in records decoded from elsewhere).
\<close>

datatype pyval = PInt int | PStr string

definition is_digit :: "char \<Rightarrow> bool" where
  "is_digit c \<longleftrightarrow> c \<in> set ''0123456789''"

definition digit_val :: "char \<Rightarrow> int" where
  "digit_val c = int (of_char c) - 48"

definition decimal :: "string \<Rightarrow> int" where
  "decimal ds = foldl (\<lambda>acc c. 10 * acc + digit_val c) 0 ds"

text \<open>
  The body of a decimal literal accepted by \<^verbatim>\<open>int(str)\<close>: a digit, then digits with
  single underscores allowed between them. The result is the digits without the
  underscores.
\<close>

fun literal_digits :: "string \<Rightarrow> string option"
  and literal_rest :: "string \<Rightarrow> string option" where
  "literal_digits [] = None"
| "literal_digits (c # cs) =
     (if is_digit c then map_option (Cons c) (literal_rest cs) else None)"
| "literal_rest [] = Some []"
| "literal_rest (c # cs) =
     (if c = CHR ''_'' then literal_digits cs
      else if is_digit c then map_option (Cons c) (literal_rest cs)
      else None)"

text \<open>
  White space that \<^verbatim>\<open>int(str)\<close> strips on both sides: the space, the characters
  0x09 to 0x0D, and 0x85 and 0xA0. The separators 0x1C to 0x1F are not stripped, and a
  string that holds one is no literal. Strings are modelled as lists of 8-bit
  characters, so only the white space of that range is listed, and the digits are the
  ASCII ones. A sign may come first, with no space after it; the number of digits is not
  limited.
\<close>

definition is_space :: "char \<Rightarrow> bool" where
  "is_space c \<longleftrightarrow> c \<in> {CHR '' '', CHR 0x09, CHR 0x0A, CHR 0x0B, CHR 0x0C, CHR 0x0D,
      CHR 0x85, CHR 0xA0}"

definition strip :: "string \<Rightarrow> string" where
  "strip s = rev (dropWhile is_space (rev (dropWhile is_space s)))"

definition int_of_str :: "string \<Rightarrow> int option" where
  "int_of_str s =
     (case strip s of
        [] \<Rightarrow> None
      | c # cs \<Rightarrow>
          if c = CHR ''-'' then map_option (\<lambda>ds. - decimal ds) (literal_digits cs)
          else if c = CHR ''+'' then map_option decimal (literal_digits cs)
          else map_option decimal (literal_digits (c # cs)))"

text \<open>
  \<^verbatim>\<open>int(x)\<close>: an integer is returned as it is, a string is parsed in base 10 and
  raises \<^verbatim>\<open>ValueError\<close> when it is not a literal (the message's quotation of the
  string is left out).
\<close>

definition py_int :: "pyval \<Rightarrow> error + int" where
  "py_int x =
     (case x of
        PInt n \<Rightarrow> Inr n
      | PStr s \<Rightarrow>
          (case int_of_str s of
             None \<Rightarrow> Inl (ValueError ''invalid literal for int() with base 10'')
           | Some n \<Rightarrow> Inr n))"

text \<open>
  \<^verbatim>\<open>attempt_id_re = re.compile(r"attempt_id:([0-9]+)")\<close> used with \<^verbatim>\<open>match\<close>: the tag
  must start with \<^verbatim>\<open>attempt_id:\<close> followed by at least one digit; the group is the
  longest run of digits there, and whatever follows is ignored. The result is
  \<^verbatim>\<open>int(match_result.group(1))\<close>, or None when there is no match.
\<close>

definition attempt_id_match :: "string \<Rightarrow> int option" where
  "attempt_id_match t =
     (let p = ''attempt_id:''; g = takeWhile is_digit (drop (length p) t)
      in if take (length p) t = p \<and> g \<noteq> [] then Some (decimal g) else None)"

section \<open>Records\<close>

text \<open>
  The records are Python dicts. Both \<^verbatim>\<open>tags\<close> and \<^verbatim>\<open>system_tags\<close> are read with
  \<^verbatim>\<open>.get\<close>, so they are optional keys: None is the absent key. The other keys are
  read with \<^verbatim>\<open>v[...]\<close> and are the ones every record built below carries.
\<close>

record tagged_obj =
  tags :: "string list option"
  system_tags :: "string list option"

record task_level_record = tagged_obj +
  flow_id :: string
  run_number :: pyval
  step_name :: string
  task_id :: pyval
  type :: string
  user_name :: string
  ts_epoch :: int

record metadata_record = task_level_record +
  field_name :: string
  field_value :: pyval

record artifact_record = task_level_record +
  attempt_id :: int
  name :: string
  content_type :: string
  sha :: string
  ds_type :: string
  location :: string

text \<open>
  The named tuples \<^verbatim>\<open>DataArtifact(name ds_type ds_root url type sha)\<close> and
  \<^verbatim>\<open>MetaDatum(field value type tags)\<close>; the selectors carry a prefix where the dict
  keys above already use the name.
\<close>

datatype DataArtifact =
  DataArtifact (art_name: string) (art_ds_type: string) (art_ds_root: string)
    (art_url: "string option") (art_type: string) (art_sha: string)


section \<open>The tag filter\<close>

text \<open>\<^verbatim>\<open>obj.get('tags', [])\<close> and \<^verbatim>\<open>obj.get('system_tags', [])\<close>.\<close>

definition get_tags :: "'a tagged_obj_scheme \<Rightarrow> string list" where
  "get_tags obj = (case tags obj of None \<Rightarrow> [] | Some ts \<Rightarrow> ts)"

definition get_system_tags :: "'a tagged_obj_scheme \<Rightarrow> string list" where
  "get_system_tags obj = (case system_tags obj of None \<Rightarrow> [] | Some ts \<Rightarrow> ts)"

text \<open>
  One round of the loop over \<^verbatim>\<open>filters.items()\<close>: the three \<^verbatim>\<open>if key == ...\<close> blocks
  each append to \<^verbatim>\<open>result\<close>, which starts empty and becomes the next
  \<^verbatim>\<open>starting_point\<close>.
\<close>

definition filter_round ::
  "string \<Rightarrow> string \<Rightarrow> 'a tagged_obj_scheme list \<Rightarrow> 'a tagged_obj_scheme list" where
  "filter_round key v starting_point =
     (if key = ''any_tags''
      then filter (\<lambda>obj. v \<in> set (get_tags obj) \<or> v \<in> set (get_system_tags obj)) starting_point
      else [])
     @ (if key = ''tags''
        then filter (\<lambda>obj. v \<in> set (get_tags obj)) starting_point else [])
     @ (if key = ''system_tags''
        then filter (\<lambda>obj. v \<in> set (get_system_tags obj)) starting_point else [])"

fun filter_rounds ::
  "(string \<times> string) list \<Rightarrow> 'a tagged_obj_scheme list \<Rightarrow> 'a tagged_obj_scheme list" where
  "filter_rounds [] starting_point = starting_point"
| "filter_rounds ((key, v) # items) starting_point =
     filter_rounds items (filter_round key v starting_point)"

text \<open>
  \<^verbatim>\<open>_apply_filter(elts, filters)\<close>. The dict \<^verbatim>\<open>filters\<close> is its list of items in
  iteration order, or None.
\<close>

definition apply_filter ::
  "'a tagged_obj_scheme list \<Rightarrow> (string \<times> string) list option \<Rightarrow> 'a tagged_obj_scheme list" where
  "apply_filter elts filters =
     (case filters of None \<Rightarrow> elts | Some items \<Rightarrow> filter_rounds items elts)"

text \<open>
  The reading of one filter given in the specification: \<^verbatim>\<open>tags\<close> tests the user tags,
  \<^verbatim>\<open>system_tags\<close> the system tags, \<^verbatim>\<open>any_tags\<close> their union.
\<close>

definition spec_keeps :: "string \<times> string \<Rightarrow> 'a tagged_obj_scheme \<Rightarrow> bool" where
  "spec_keeps kv obj =
     (if fst kv = ''tags'' then snd kv \<in> set (get_tags obj)
      else if fst kv = ''system_tags'' then snd kv \<in> set (get_system_tags obj)
      else if fst kv = ''any_tags'' then snd kv \<in> set (get_tags obj) \<union> set (get_system_tags obj)
      else False)"

definition filter_kinds :: "string set" where
  "filter_kinds = {''any_tags'', ''tags'', ''system_tags''}"

section \<open>Reconstructing the metadata of one attempt\<close>

text \<open>
  The inner loop over the tags of a record, with its \<^verbatim>\<open>break\<close> at the first tag that
  matches: the result is that tag's number, or None when the loop reaches its
  \<^verbatim>\<open>else\<close> branch.
\<close>

fun first_attempt_tag :: "string list \<Rightarrow> int option" where
  "first_attempt_tag [] = None"
| "first_attempt_tag (t # ts) =
     (case attempt_id_match t of
        Some n \<Rightarrow> Some n
      | None \<Rightarrow> first_attempt_tag ts)"

text \<open>
  The loop over \<^verbatim>\<open>all_metadata\<close>. Its state is \<^verbatim>\<open>have_all_attempt_id\<close>,
  \<^verbatim>\<open>attempts_start\<close> and \<^verbatim>\<open>post_filter\<close>; \<^verbatim>\<open>int(v['value'])\<close> may raise. The tags
  are \<^verbatim>\<open>v.get('tags')\<close> with \<^verbatim>\<open>None\<close> replaced by the empty list, which is what
  \<^verbatim>\<open>get_tags\<close> gives.
\<close>

fun scan_metadata ::
  "int \<Rightarrow> metadata_record list \<Rightarrow> bool \<times> (int \<rightharpoonup> int) \<times> metadata_record list \<Rightarrow>
   error + bool \<times> (int \<rightharpoonup> int) \<times> metadata_record list" where
  "scan_metadata attempt [] st = Inr st"
| "scan_metadata attempt (v # vs) (have_all_attempt_id, attempts_start, post_filter) =
     (case (if field_name v = ''attempt''
            then (case py_int (field_value v) of
                    Inl e \<Rightarrow> Inl e
                  | Inr n \<Rightarrow> Inr (attempts_start(n \<mapsto> ts_epoch v)))
            else Inr attempts_start) of
        Inl e \<Rightarrow> Inl e
      | Inr attempts_start' \<Rightarrow>
          (case first_attempt_tag (get_tags v) of
             Some n \<Rightarrow>
               scan_metadata attempt vs
                 (have_all_attempt_id, attempts_start',
                  if n = attempt then post_filter @ [v] else post_filter)
           | None \<Rightarrow> scan_metadata attempt vs (False, attempts_start', post_filter)))"

definition reconstruct_metadata_for_attempt ::
  "metadata_record list \<Rightarrow> int \<Rightarrow> error + metadata_record list" where
  "reconstruct_metadata_for_attempt all_metadata attempt =
     (case scan_metadata attempt all_metadata (True, Map.empty, []) of
        Inl e \<Rightarrow> Inl e
      | Inr (have_all_attempt_id, attempts_start, post_filter) \<Rightarrow>
          if \<not> have_all_attempt_id then
            (let start_ts = (case attempts_start attempt of None \<Rightarrow> - 1 | Some t \<Rightarrow> t)
             in if start_ts < 0 then Inr []
                else
                  (let end_ts = (case attempts_start (attempt + 1) of
                                   None \<Rightarrow> 32503680000000
                                 | Some t \<Rightarrow> t)
                   in Inr (filter (\<lambda>v. ts_epoch v \<ge> start_ts \<and> ts_epoch v < end_ts)
                             all_metadata)))
          else Inr post_filter)"

text \<open>
  The timestamps of the \<^verbatim>\<open>attempt\<close> records that carry a given attempt number, in
  input order. The specification's ``start of attempt n'' is the last of them (a later
  record overwrites the dict entry of an earlier one).
\<close>

definition attempt_starts :: "metadata_record list \<Rightarrow> int \<Rightarrow> int list" where
  "attempt_starts all_metadata n =
     map ts_epoch
       (filter (\<lambda>v. field_name v = ''attempt'' \<and> py_int (field_value v) = Inr n) all_metadata)"

text \<open>
  The start of attempt \<^verbatim>\<open>n\<close> as the loop leaves it in \<^verbatim>\<open>attempts_start\<close>, and the
  dict after the loop has run over \<^verbatim>\<open>vs\<close> from the dict \<^verbatim>\<open>m\<close>.
\<close>

definition attempt_start :: "metadata_record list \<Rightarrow> int \<Rightarrow> int option" where
  "attempt_start all_metadata n =
     (case attempt_starts all_metadata n of [] \<Rightarrow> None | s # ss \<Rightarrow> Some (last (s # ss)))"

definition starts_after ::
  "(int \<rightharpoonup> int) \<Rightarrow> metadata_record list \<Rightarrow> (int \<rightharpoonup> int)" where
  "starts_after m vs =
     (\<lambda>n. case attempt_starts vs n of [] \<Rightarrow> m n | s # ss \<Rightarrow> Some (last (s # ss)))"

text \<open>
  Two conditions on the input of the reconstruction: every \<^verbatim>\<open>attempt\<close> record has a
  value that \<^verbatim>\<open>int\<close> accepts, and a record carries a tag that the pattern matches.
\<close>

definition attempt_values_parse :: "metadata_record list \<Rightarrow> bool" where
  "attempt_values_parse all_metadata =
     list_all (\<lambda>v. field_name v = ''attempt'' \<longrightarrow> \<not> isl (py_int (field_value v))) all_metadata"

definition has_attempt_tag :: "metadata_record \<Rightarrow> bool" where
  "has_attempt_tag v \<longleftrightarrow> first_attempt_tag (get_tags v) \<noteq> None"

text \<open>A metadata record of a fixed task, for the examples below.\<close>

definition example_record ::
  "string \<Rightarrow> pyval \<Rightarrow> int \<Rightarrow> string list option \<Rightarrow> metadata_record" where
  "example_record f x ts tgs =
     \<lparr>tags = tgs, system_tags = None, flow_id = ''F'', run_number = PInt 1,
      step_name = ''start'', task_id = PInt 1, type = f, user_name = ''u'',
      ts_epoch = ts, field_name = f, field_value = x\<rparr>"

section \<open>The query entry point\<close>

text \<open>The dict \<^verbatim>\<open>obj_order\<close> of \<^verbatim>\<open>get_object\<close>, read with \<^verbatim>\<open>.get\<close>.\<close>

definition obj_order :: "string \<Rightarrow> nat option" where
  "obj_order t =
     (if t = ''root'' then Some 0
      else if t = ''flow'' then Some 1
      else if t = ''run'' then Some 2
      else if t = ''step'' then Some 3
      else if t = ''task'' then Some 4
      else if t = ''artifact'' then Some 5
      else if t = ''metadata'' then Some 6
      else if t = ''self'' then Some 7
      else None)"

text \<open>
  The arguments \<^verbatim>\<open>get_object\<close> hands to \<^verbatim>\<open>_get_object_internal\<close>, and what that
  method gives back: a list of metadata records (what a metadata query must return), or
  anything else (an object, a list of other objects, \<^verbatim>\<open>None\<close>). The backend itself is
  a parameter: \<^verbatim>\<open>_get_object_internal\<close> is abstract in this class.
\<close>

record backend_call =
  call_obj_type :: string
  call_obj_order :: nat
  call_sub_type :: string
  call_sub_order :: nat
  call_filters :: "(string \<times> string) list option"
  call_attempt :: "int option"
  call_args :: "string list"

datatype 'o fetched = Records "metadata_record list" | Other 'o

text \<open>
  The \<^verbatim>\<open>try\<close> block on \<^verbatim>\<open>attempt\<close>: both the \<^verbatim>\<open>ValueError\<close> of \<^verbatim>\<open>int\<close> and the one
  raised for a negative number are caught and raised again with one message.
\<close>

definition check_attempt :: "pyval option \<Rightarrow> error + int option" where
  "check_attempt attempt =
     (case attempt of
        None \<Rightarrow> Inr None
      | Some a \<Rightarrow>
          (case py_int a of
             Inl e \<Rightarrow> Inl (ValueError ''Attempt can only be a positive integer'')
           | Inr attempt_int \<Rightarrow>
               if attempt_int < 0
               then Inl (ValueError ''Attempt can only be a positive integer'')
               else Inr (Some attempt_int)))"

text \<open>
  \<^verbatim>\<open>get_object\<close>. The second component of the result lists the calls made to the
  backend, so that raising before the backend is reached can be told from a backend
  that raises. A backend result that is not a list of metadata records cannot be
  iterated as one by the reconstruction; the model raises \<^verbatim>\<open>TypeError\<close> there.
\<close>

definition get_object ::
  "(backend_call \<Rightarrow> error + 'o fetched) \<Rightarrow> string \<Rightarrow> string \<Rightarrow>
   (string \<times> string) list option \<Rightarrow> pyval option \<Rightarrow> string list \<Rightarrow>
   (error + 'o fetched) \<times> backend_call list" where
  "get_object get_object_internal obj_type sub_type filters attempt args =
     (case obj_order obj_type of
        None \<Rightarrow> (Inl (MetaflowInternalError (''Cannot find type '' @ obj_type)), [])
      | Some type_order \<Rightarrow>
          if type_order > 5
          then (Inl (MetaflowInternalError (''Type '' @ obj_type @ '' is not allowed'')), [])
          else
            (case obj_order sub_type of
               None \<Rightarrow> (Inl (MetaflowInternalError (''Cannot find subtype '' @ sub_type)), [])
             | Some sub_order \<Rightarrow>
                 if type_order \<ge> sub_order
                 then (Inl (MetaflowInternalError
                              (''Subtype '' @ sub_type @ '' not allowed for '' @ obj_type)), [])
                 else if sub_type = ''metadata'' \<and> obj_type \<noteq> ''task''
                 then (Inl (MetaflowInternalError
                              ''Metadata can only be retrieved at the task level''), [])
                 else
                   (case check_attempt attempt of
                      Inl e \<Rightarrow> (Inl e, [])
                    | Inr attempt_int \<Rightarrow>
                        (let c = \<lparr>call_obj_type = obj_type, call_obj_order = type_order,
                                  call_sub_type = sub_type, call_sub_order = sub_order,
                                  call_filters = filters, call_attempt = attempt_int,
                                  call_args = args\<rparr>;
                             pre_filter = get_object_internal c
                         in (case attempt_int of
                               None \<Rightarrow> (pre_filter, [c])
                             | Some n \<Rightarrow>
                                 if sub_order \<noteq> 6 then (pre_filter, [c])
                                 else
                                   (case pre_filter of
                                      Inl e \<Rightarrow> (Inl e, [c])
                                    | Inr (Other x) \<Rightarrow> (Inl TypeError, [c])
                                    | Inr (Records all_metadata) \<Rightarrow>
                                        (map_sum id Records
                                           (reconstruct_metadata_for_attempt all_metadata n),
                                         [c])))))))"

text \<open>
  The pairs the specification allows: both names known, the container at most at the
  level of \<^verbatim>\<open>artifact\<close> and strictly above the aggregation, and \<^verbatim>\<open>metadata\<close> only
  under \<^verbatim>\<open>task\<close>.
\<close>

definition legal_aggregation :: "string \<Rightarrow> string \<Rightarrow> bool" where
  "legal_aggregation obj_type sub_type =
     (case (obj_order obj_type, obj_order sub_type) of
        (Some a, Some b) \<Rightarrow> a \<le> 5 \<and> a < b \<and> (sub_type \<noteq> ''metadata'' \<or> obj_type = ''task'')
      | _ \<Rightarrow> False)"

text \<open>The call that \<^verbatim>\<open>get_object\<close> makes to the backend once its checks have passed.\<close>

definition expected_call ::
  "string \<Rightarrow> string \<Rightarrow> (string \<times> string) list option \<Rightarrow> int option \<Rightarrow> string list \<Rightarrow>
   backend_call" where
  "expected_call obj_type sub_type filters attempt_int args =
     \<lparr>call_obj_type = obj_type, call_obj_order = the (obj_order obj_type),
      call_sub_type = sub_type, call_sub_order = the (obj_order sub_type),
      call_filters = filters, call_attempt = attempt_int, call_args = args\<rparr>"

section \<open>The provider's sticky tags and the record builders\<close>

text \<open>
  The state of a provider that the builders read. A Python set of tags is a list
  without repetition; the order of the list stands for the set's iteration order, which
  the language leaves open, so only membership in it means anything.
\<close>

record provider =
  task_id_seq :: int
  sticky_tags :: "string list"
  sticky_sys_tags :: "string list"
  flow_name :: string
  runtime :: string

definition set_update :: "string list \<Rightarrow> string list \<Rightarrow> string list" where
  "set_update s xs = foldl (\<lambda>acc x. if x \<in> set acc then acc else acc @ [x]) s xs"

definition truthy :: "'a list option \<Rightarrow> bool" where
  "truthy x = (case x of None \<Rightarrow> False | Some [] \<Rightarrow> False | Some (y # ys) \<Rightarrow> True)"

definition add_sticky_tags ::
  "string list option \<Rightarrow> string list option \<Rightarrow> provider \<Rightarrow> provider" where
  "add_sticky_tags tgs sys_tags self =
     (let self1 = (if truthy tgs
                   then self\<lparr>sticky_tags := set_update (sticky_tags self) (the tgs)\<rparr>
                   else self)
      in if truthy sys_tags
         then self1\<lparr>sticky_sys_tags := set_update (sticky_sys_tags self1) (the sys_tags)\<rparr>
         else self1)"

text \<open>
  \<^verbatim>\<open>_tags()\<close>: the tags derived from the environment. The environment information,
  the resolved identity and the date are inputs.
\<close>

record environment_info =
  env_runtime :: string
  python_version_code :: string
  metaflow_version :: "string option"
  metaflow_r_version :: "string option"
  r_version_code :: "string option"

definition provider_tags :: "string \<Rightarrow> string \<Rightarrow> environment_info \<Rightarrow> string list" where
  "provider_tags identity today env =
     [identity,
      ''runtime:'' @ env_runtime env,
      ''python_version:'' @ python_version_code env,
      ''date:'' @ today]
     @ (if truthy (metaflow_version env)
        then [''metaflow_version:'' @ the (metaflow_version env)] else [])
     @ (case metaflow_r_version env of
          None \<Rightarrow> [] | Some v \<Rightarrow> [''metaflow_r_version:'' @ v])
     @ (case r_version_code env of
          None \<Rightarrow> [] | Some v \<Rightarrow> [''r_version:'' @ v])"

text \<open>\<^verbatim>\<open>__init__\<close>: empty sticky sets, then the environment's tags as sticky system tags.\<close>

definition init_provider ::
  "string \<Rightarrow> string \<Rightarrow> string \<Rightarrow> string \<Rightarrow> environment_info \<Rightarrow> provider" where
  "init_provider flow runtime_name identity today env =
     add_sticky_tags None (Some (provider_tags identity today env))
       \<lparr>task_id_seq = - 1, sticky_tags = [], sticky_sys_tags = [],
        flow_name = flow, runtime = runtime_name\<rparr>"

text \<open>
  \<^verbatim>\<open>_artifacts_to_json\<close>, with \<^verbatim>\<open>_all_obj_elements(self.sticky_tags,
  self.sticky_sys_tags)\<close> written out. The user name and the clock are inputs; the clock
  is read once for each record, \<^verbatim>\<open>clock i\<close> being the reading for the record at
  position \<^verbatim>\<open>i\<close>.
\<close>

definition artifacts_to_json ::
  "provider \<Rightarrow> string \<Rightarrow> (nat \<Rightarrow> int) \<Rightarrow> pyval \<Rightarrow> string \<Rightarrow> pyval \<Rightarrow> int \<Rightarrow>
   DataArtifact list \<Rightarrow> artifact_record list" where
  "artifacts_to_json self user clock run_id step task attempt artifacts =
     map (\<lambda>(i, art).
            \<lparr>tags = Some (if sticky_tags self \<noteq> [] then sticky_tags self else []),
             system_tags = Some (if sticky_sys_tags self \<noteq> [] then sticky_sys_tags self else []),
             flow_id = flow_name self,
             run_number = run_id,
             step_name = step,
             task_id = task,
             type = ''metaflow.artifact'',
             user_name = user,
             ts_epoch = clock i,
             attempt_id = attempt,
             name = art_name art,
             content_type = art_type art,
             sha = art_sha art,
             ds_type = art_ds_type art,
             location = (if truthy (art_url art) then the (art_url art)
                         else '':root:'' @ art_ds_root art)\<rparr>)
         (enumerate 0 artifacts)"


section \<open>Example inputs\<close>

text \<open>
  A backend that returns an empty list of metadata records, a provider as
  \<^verbatim>\<open>__init__\<close> leaves it, and one artifact.
\<close>

definition empty_backend :: "backend_call \<Rightarrow> error + unit fetched" where
  "empty_backend c = Inr (Records [])"

definition example_provider :: provider where
  "example_provider =
     init_provider ''F'' ''dev'' ''user:u'' ''2021-10-01''
       \<lparr>env_runtime = ''dev'', python_version_code = ''3.8.0'',
        metaflow_version = Some ''2.4.0'', metaflow_r_version = None, r_version_code = None\<rparr>"

definition example_artifact :: DataArtifact where
  "example_artifact = DataArtifact ''x'' ''s3'' ''root'' None ''pickle'' ''abc123''"

section \<open>Properties of the tag filter\<close>

lemma spec_keeps_any:
  "spec_keeps (''any_tags'', v) obj \<longleftrightarrow>
     v \<in> set (get_tags obj) \<or> v \<in> set (get_system_tags obj)"
  by (simp add: spec_keeps_def)

lemma spec_keeps_tags: "spec_keeps (''tags'', v) obj \<longleftrightarrow> v \<in> set (get_tags obj)"
  by (simp add: spec_keeps_def)

lemma spec_keeps_system_tags:
  "spec_keeps (''system_tags'', v) obj \<longleftrightarrow> v \<in> set (get_system_tags obj)"
  by (simp add: spec_keeps_def)

lemma spec_keeps_other:
  "key \<noteq> ''any_tags'' \<Longrightarrow> key \<noteq> ''tags'' \<Longrightarrow> key \<noteq> ''system_tags'' \<Longrightarrow>
   \<not> spec_keeps (key, v) obj"
  by (simp add: spec_keeps_def)

text \<open>One round of the loop keeps what the filter's reading keeps, whatever the key.\<close>

lemma filter_round_spec: "filter_round key v sp = filter (spec_keeps (key, v)) sp"
proof -
  consider (any) "key = ''any_tags''" | (usr) "key = ''tags''" | (sys) "key = ''system_tags''"
    | (other) "key \<noteq> ''any_tags''" "key \<noteq> ''tags''" "key \<noteq> ''system_tags''"
    by blast
  then show ?thesis
  proof cases
    case any
    show ?thesis
      unfolding any by (simp add: filter_round_def spec_keeps_any cong: filter_cong)
  next
    case usr
    show ?thesis
      unfolding usr by (simp add: filter_round_def spec_keeps_tags cong: filter_cong)
  next
    case sys
    show ?thesis
      unfolding sys by (simp add: filter_round_def spec_keeps_system_tags cong: filter_cong)
  next
    case other
    then show ?thesis
      by (simp add: filter_round_def spec_keeps_other cong: filter_cong)
  qed
qed

lemma filter_rounds_spec:
  "filter_rounds items sp = filter (\<lambda>obj. list_all (\<lambda>kv. spec_keeps kv obj) items) sp"
proof (induction items arbitrary: sp)
  case Nil
  then show ?case by simp
next
  case (Cons kv items)
  obtain key v where kv: "kv = (key, v)" by (cases kv)
  show ?case
    unfolding kv by (simp add: Cons.IH filter_round_spec conj_commute)
qed

lemma apply_filter_spec:
  "apply_filter elts (Some items) =
     filter (\<lambda>obj. list_all (\<lambda>kv. spec_keeps kv obj) items) elts"
  by (simp add: apply_filter_def filter_rounds_spec)

section \<open>Properties of the reconstruction\<close>

lemma attempt_starts_Nil: "attempt_starts [] n = []"
  by (simp add: attempt_starts_def)

lemma attempt_starts_Cons:
  "attempt_starts (v # vs) n =
     (if field_name v = ''attempt'' \<and> py_int (field_value v) = Inr n
      then ts_epoch v # attempt_starts vs n else attempt_starts vs n)"
  by (simp add: attempt_starts_def)

lemma starts_after_Nil: "starts_after m [] = m"
  by (simp add: starts_after_def attempt_starts_Nil)

lemma starts_after_Cons_attempt:
  assumes "field_name v = ''attempt''" and "py_int (field_value v) = Inr k"
  shows "starts_after (m(k \<mapsto> ts_epoch v)) vs = starts_after m (v # vs)"
proof (rule ext)
  fix n
  show "starts_after (m(k \<mapsto> ts_epoch v)) vs n = starts_after m (v # vs) n"
    using assms by (cases "attempt_starts vs n") (auto simp: starts_after_def attempt_starts_Cons)
qed

lemma starts_after_Cons_other:
  assumes "field_name v \<noteq> ''attempt''"
  shows "starts_after m vs = starts_after m (v # vs)"
  using assms by (simp add: starts_after_def attempt_starts_Cons)

lemma starts_after_empty: "starts_after Map.empty vs = attempt_start vs"
  by (rule ext) (simp add: starts_after_def attempt_start_def)

text \<open>
  What the loop computes when every \<^verbatim>\<open>attempt\<close> value is accepted by \<^verbatim>\<open>int\<close>, and that
  it raises otherwise.
\<close>

lemma scan_metadata_parse:
  assumes "attempt_values_parse vs"
  shows "scan_metadata a vs (h, m, pf) =
     Inr (h \<and> list_all has_attempt_tag vs, starts_after m vs,
          pf @ filter (\<lambda>v. first_attempt_tag (get_tags v) = Some a) vs)"
  using assms
proof (induction vs arbitrary: h m pf)
  case Nil
  then show ?case by (simp add: starts_after_Nil)
next
  case (Cons v vs)
  from Cons.prems have rest: "attempt_values_parse vs"
    by (simp add: attempt_values_parse_def)
  note IH = Cons.IH [OF rest]
  show ?case
  proof (cases "field_name v = ''attempt''")
    case True
    with Cons.prems obtain k where k: "py_int (field_value v) = Inr k"
      by (cases "py_int (field_value v)") (auto simp: attempt_values_parse_def)
    show ?thesis
      using True k starts_after_Cons_attempt [OF True k, of m vs]
      by (cases "first_attempt_tag (get_tags v)")
         (auto simp: IH has_attempt_tag_def fun_upd_def [symmetric])
  next
    case False
    show ?thesis
      using False starts_after_Cons_other [OF False, of m vs]
      by (cases "first_attempt_tag (get_tags v)") (auto simp: IH has_attempt_tag_def)
  qed
qed

lemma scan_metadata_raises:
  assumes "\<not> attempt_values_parse vs"
  shows "scan_metadata a vs st = Inl (ValueError ''invalid literal for int() with base 10'')"
  using assms
proof (induction vs arbitrary: st)
  case Nil
  then show ?case by (simp add: attempt_values_parse_def)
next
  case (Cons v vs)
  obtain h m pf where st: "st = (h, m, pf)" by (cases st)
  show ?case
  proof (cases "field_name v = ''attempt'' \<and> isl (py_int (field_value v))")
    case True
    then have "py_int (field_value v) = Inl (ValueError ''invalid literal for int() with base 10'')"
      by (auto simp: py_int_def split: pyval.splits option.splits)
    with True show ?thesis by (simp add: st)
  next
    case False
    with Cons.prems have rest: "\<not> attempt_values_parse vs"
      by (auto simp: attempt_values_parse_def)
    note IH = Cons.IH [OF rest]
    from False show ?thesis
      unfolding st
      by (cases "py_int (field_value v)"; cases "first_attempt_tag (get_tags v)")
         (auto simp: IH)
  qed
qed

lemma reconstruct_parse:
  assumes "attempt_values_parse xs"
  shows "reconstruct_metadata_for_attempt xs a =
     Inr (if list_all has_attempt_tag xs
          then filter (\<lambda>v. first_attempt_tag (get_tags v) = Some a) xs
          else (case attempt_start xs a of
                  None \<Rightarrow> []
                | Some start_ts \<Rightarrow>
                    if start_ts < 0 then []
                    else filter (\<lambda>v. start_ts \<le> ts_epoch v
                                  \<and> ts_epoch v < (case attempt_start xs (a + 1) of
                                                   None \<Rightarrow> 32503680000000
                                                 | Some end_ts \<Rightarrow> end_ts)) xs))"
  unfolding reconstruct_metadata_for_attempt_def scan_metadata_parse [OF assms] starts_after_empty
  by (cases "attempt_start xs a") (simp_all add: Let_def)

lemma reconstruct_raises:
  assumes "\<not> attempt_values_parse xs"
  shows "reconstruct_metadata_for_attempt xs a =
     Inl (ValueError ''invalid literal for int() with base 10'')"
  unfolding reconstruct_metadata_for_attempt_def scan_metadata_raises [OF assms] by simp

subsection \<open>Evaluation on concrete tags, literals and records\<close>

lemma attempt_id_match_0: "attempt_id_match ''attempt_id:0'' = Some 0"
  by (simp add: attempt_id_match_def is_digit_def decimal_def digit_val_def)

lemma attempt_id_match_1: "attempt_id_match ''attempt_id:1'' = Some 1"
  by (simp add: attempt_id_match_def is_digit_def decimal_def digit_val_def)

lemma attempt_id_match_other: "attempt_id_match ''user:x'' = None"
  by (simp add: attempt_id_match_def)

lemma py_int_abc:
  "py_int (PStr ''abc'') = Inl (ValueError ''invalid literal for int() with base 10'')"
  by (simp add: py_int_def int_of_str_def strip_def is_space_def is_digit_def)

lemma py_int_minus1: "py_int (PStr ''-1'') = Inr (- 1)"
  by (simp add: py_int_def int_of_str_def strip_def is_space_def is_digit_def decimal_def
      digit_val_def)

lemma py_int_0: "py_int (PStr ''0'') = Inr 0"
  by (simp add: py_int_def int_of_str_def strip_def is_space_def is_digit_def decimal_def
      digit_val_def)

lemma py_int_1: "py_int (PStr ''1'') = Inr 1"
  by (simp add: py_int_def int_of_str_def strip_def is_space_def is_digit_def decimal_def
      digit_val_def)

lemma py_int_padded: "py_int (PStr '' +1_0 '') = Inr 10"
  by (simp add: py_int_def int_of_str_def strip_def is_space_def is_digit_def decimal_def
      digit_val_def)

lemma py_int_not_literals:
  "isl (py_int (PStr ''1__0''))" "isl (py_int (PStr ''''))" "isl (py_int (PStr ''- 1''))"
  "isl (py_int (PStr ''1_''))"
  by (simp_all add: py_int_def int_of_str_def strip_def is_space_def is_digit_def)

lemma py_int_separators:
  "isl (py_int (PStr [CHR 0x1C, CHR ''1'']))" "isl (py_int (PStr [CHR ''1'', CHR 0x1F]))"
  "py_int (PStr [CHR 0xA0, CHR ''1'', CHR 0x85]) = Inr 1"
  "py_int (PStr [CHR 0x0B, CHR ''1'', CHR 0x0C]) = Inr 1"
  by (simp_all add: py_int_def int_of_str_def strip_def is_space_def is_digit_def decimal_def
      digit_val_def)

lemma example_record_sel:
  "tags (example_record f x ts tgs) = tgs"
  "field_name (example_record f x ts tgs) = f"
  "field_value (example_record f x ts tgs) = x"
  "ts_epoch (example_record f x ts tgs) = ts"
  by (simp_all add: example_record_def)

lemmas eval_simps = example_record_sel attempt_id_match_0 attempt_id_match_1
  attempt_id_match_other py_int_0 py_int_1 py_int_abc py_int_minus1 get_tags_def
  has_attempt_tag_def attempt_values_parse_def attempt_start_def attempt_starts_def

section \<open>Properties of the query entry point\<close>

lemma obj_order_values:
  "obj_order ''root'' = Some 0" "obj_order ''flow'' = Some 1" "obj_order ''run'' = Some 2"
  "obj_order ''step'' = Some 3" "obj_order ''task'' = Some 4" "obj_order ''artifact'' = Some 5"
  "obj_order ''metadata'' = Some 6" "obj_order ''self'' = Some 7"
  by (simp_all add: obj_order_def)

lemma obj_order_metadata: "obj_order t = Some 6 \<longleftrightarrow> t = ''metadata''"
  by (simp add: obj_order_def)

lemma get_object_illegal:
  assumes "\<not> legal_aggregation obj_type sub_type"
  shows "\<exists>msg. get_object B obj_type sub_type filters attempt args
           = (Inl (MetaflowInternalError msg), [])"
  using assms
  by (cases "obj_order obj_type"; cases "obj_order sub_type")
     (auto simp: get_object_def legal_aggregation_def)


lemma get_object_legal_calls:
  assumes "legal_aggregation obj_type sub_type" and "check_attempt attempt = Inr attempt_int"
  shows "snd (get_object B obj_type sub_type filters attempt args)
           = [expected_call obj_type sub_type filters attempt_int args]"
  using assms
  by (cases "obj_order obj_type"; cases "obj_order sub_type")
     (auto simp: get_object_def legal_aggregation_def expected_call_def Let_def
           split: option.splits sum.splits fetched.splits)

lemma get_object_legal_result:
  assumes "legal_aggregation obj_type sub_type" and "check_attempt attempt = Inr attempt_int"
    and "attempt_int = None \<or> sub_type \<noteq> ''metadata''"
  shows "fst (get_object B obj_type sub_type filters attempt args)
           = B (expected_call obj_type sub_type filters attempt_int args)"
  using assms
  by (cases "obj_order obj_type"; cases "obj_order sub_type")
     (auto simp: get_object_def legal_aggregation_def expected_call_def Let_def obj_order_metadata
           split: option.splits)

lemma get_object_legal_metadata:
  assumes "legal_aggregation obj_type ''metadata''" and "check_attempt attempt = Inr (Some n)"
  shows "fst (get_object B obj_type ''metadata'' filters attempt args)
           = (case B (expected_call obj_type ''metadata'' filters (Some n) args) of
                Inl e \<Rightarrow> Inl e
              | Inr (Other x) \<Rightarrow> Inl TypeError
              | Inr (Records all_metadata) \<Rightarrow>
                  map_sum id Records (reconstruct_metadata_for_attempt all_metadata n))"
  using assms
  by (cases "obj_order obj_type")
     (auto simp: get_object_def legal_aggregation_def expected_call_def Let_def obj_order_values
           split: option.splits sum.splits fetched.splits)


text \<open>
  The attempts that pass the check, and the error of each hierarchy check: an unknown
  type or subtype, a type below \<^verbatim>\<open>artifact\<close>, a subtype that is not below the type, and
  metadata asked for anywhere but at a task. None of them depends on the attempt.
\<close>

lemma get_object_error_cases:
  "obj_order obj_type = None \<Longrightarrow>
     get_object B obj_type sub_type filters attempt args
       = (Inl (MetaflowInternalError (''Cannot find type '' @ obj_type)), [])"
  "obj_order obj_type = Some a \<Longrightarrow> 5 < a \<Longrightarrow>
     get_object B obj_type sub_type filters attempt args
       = (Inl (MetaflowInternalError (''Type '' @ obj_type @ '' is not allowed'')), [])"
  "obj_order obj_type = Some a \<Longrightarrow> a \<le> 5 \<Longrightarrow> obj_order sub_type = None \<Longrightarrow>
     get_object B obj_type sub_type filters attempt args
       = (Inl (MetaflowInternalError (''Cannot find subtype '' @ sub_type)), [])"
  "obj_order obj_type = Some a \<Longrightarrow> a \<le> 5 \<Longrightarrow> obj_order sub_type = Some b \<Longrightarrow> b \<le> a \<Longrightarrow>
     get_object B obj_type sub_type filters attempt args
       = (Inl (MetaflowInternalError
                 (''Subtype '' @ sub_type @ '' not allowed for '' @ obj_type)), [])"
  "obj_order obj_type = Some a \<Longrightarrow> a \<le> 5 \<Longrightarrow> obj_order sub_type = Some b \<Longrightarrow> a < b \<Longrightarrow>
   sub_type = ''metadata'' \<Longrightarrow> obj_type \<noteq> ''task'' \<Longrightarrow>
     get_object B obj_type sub_type filters attempt args
       = (Inl (MetaflowInternalError ''Metadata can only be retrieved at the task level''), [])"
  by (simp_all add: get_object_def)

lemma check_attempt_accepts:
  "check_attempt attempt = Inr attempt_int \<longleftrightarrow>
     (attempt = None \<and> attempt_int = None)
     \<or> (\<exists>a n. attempt = Some a \<and> py_int a = Inr n \<and> 0 \<le> n \<and> attempt_int = Some n)"
  by (cases attempt) (auto simp: check_attempt_def split: sum.splits)

section \<open>Claims about the tag filter\<close>

text \<open>
  Claim C7. With no filters (\<^verbatim>\<open>None\<close>) or an empty filters dict, \<^verbatim>\<open>_apply_filter\<close>
  returns the list it was given.
\<close>

theorem apply_filter_identity:
  "apply_filter elts None = elts \<and> apply_filter elts (Some []) = elts"
  by (simp add: apply_filter_def)

text \<open>
  Claim C10. On a non-empty list, a filters dict that holds a key other than
  \<^verbatim>\<open>any_tags\<close>, \<^verbatim>\<open>tags\<close> and \<^verbatim>\<open>system_tags\<close> makes \<^verbatim>\<open>_apply_filter\<close> return the empty
  list: the round of that key appends nothing, and every later round starts from
  nothing.
\<close>

theorem apply_filter_unknown_key:
  assumes "elts \<noteq> []" and "(key, v) \<in> set items" and "key \<notin> filter_kinds"
  shows "apply_filter elts (Some items) = []"
proof -
  have "\<not> spec_keeps (key, v) obj" for obj :: "'a tagged_obj_scheme"
    using assms(3) by (intro spec_keeps_other) (simp_all add: filter_kinds_def)
  then have "\<not> list_all (\<lambda>kv. spec_keeps kv obj) items" for obj :: "'a tagged_obj_scheme"
    using assms(2) by (auto simp: list_all_iff)
  then show ?thesis
    by (simp add: apply_filter_spec)
qed

theorem apply_filter_unknown_key_witness:
  "[\<lparr>tags = Some [''x''], system_tags = Some [''s'']\<rparr>] \<noteq> []
   \<and> (''bogus'', ''x'') \<in> set [(''tags'', ''x''), (''bogus'', ''x'')]
   \<and> ''bogus'' \<notin> filter_kinds
   \<and> apply_filter [\<lparr>tags = Some [''x''], system_tags = Some [''s'']\<rparr>]
        (Some [(''tags'', ''x''), (''bogus'', ''x'')]) = []
   \<and> apply_filter [\<lparr>tags = Some [''x''], system_tags = Some [''s'']\<rparr>]
        (Some [(''tags'', ''x'')]) = [\<lparr>tags = Some [''x''], system_tags = Some [''s'']\<rparr>]"
proof -
  have a: "[\<lparr>tags = Some [''x''], system_tags = Some [''s'']\<rparr>] \<noteq> []" by simp
  have b: "(''bogus'', ''x'') \<in> set [(''tags'', ''x''), (''bogus'', ''x'')]" by simp
  have c: "''bogus'' \<notin> filter_kinds" by (simp add: filter_kinds_def)
  have d: "apply_filter [\<lparr>tags = Some [''x''], system_tags = Some [''s'']\<rparr>]
        (Some [(''tags'', ''x'')]) = [\<lparr>tags = Some [''x''], system_tags = Some [''s'']\<rparr>]"
    by (simp add: apply_filter_spec spec_keeps_tags get_tags_def)
  from apply_filter_unknown_key [OF a b c] a b c d show ?thesis by simp
qed

text \<open>
  Claim C6. The result of \<^verbatim>\<open>_apply_filter\<close> does not depend on the order of the items of
  the filters dict: two dicts with the same items give the same list, which holds the
  records that every item keeps, where \<^verbatim>\<open>tags\<close> tests the user tags, \<^verbatim>\<open>system_tags\<close>
  the system tags and \<^verbatim>\<open>any_tags\<close> their union. In particular the result for
  \<^verbatim>\<open>{tags: a, system_tags: b}\<close> has as members the common members of the results for
  \<^verbatim>\<open>{tags: a}\<close> and for \<^verbatim>\<open>{system_tags: b}\<close>.
\<close>

theorem apply_filter_order_independent:
  assumes "set items' = set items"
  shows "apply_filter elts (Some items') = apply_filter elts (Some items)
    \<and> apply_filter elts (Some items)
        = filter (\<lambda>obj. list_all (\<lambda>kv. spec_keeps kv obj) items) elts
    \<and> set (apply_filter elts (Some [(''tags'', a), (''system_tags'', b)]))
        = set (apply_filter elts (Some [(''tags'', a)]))
          \<inter> set (apply_filter elts (Some [(''system_tags'', b)]))
    \<and> apply_filter elts (Some [(''system_tags'', b), (''tags'', a)])
        = apply_filter elts (Some [(''tags'', a), (''system_tags'', b)])"
proof -
  have "list_all (\<lambda>kv. spec_keeps kv obj) items' = list_all (\<lambda>kv. spec_keeps kv obj) items"
    for obj :: "'a tagged_obj_scheme"
    using assms by (simp add: list_all_iff)
  then have 1: "apply_filter elts (Some items') = apply_filter elts (Some items)"
    by (simp add: apply_filter_spec)
  have 2: "apply_filter elts (Some items)
      = filter (\<lambda>obj. list_all (\<lambda>kv. spec_keeps kv obj) items) elts"
    by (rule apply_filter_spec)
  have 3: "set (apply_filter elts (Some [(''tags'', a), (''system_tags'', b)]))
        = set (apply_filter elts (Some [(''tags'', a)]))
          \<inter> set (apply_filter elts (Some [(''system_tags'', b)]))"
    unfolding apply_filter_spec by auto
  have 4: "apply_filter elts (Some [(''system_tags'', b), (''tags'', a)])
        = apply_filter elts (Some [(''tags'', a), (''system_tags'', b)])"
    unfolding apply_filter_spec by (simp add: conj_commute)
  from 1 2 3 4 show ?thesis by blast
qed

theorem apply_filter_order_independent_witness:
  "set [(''any_tags'', ''s''), (''system_tags'', ''s''), (''tags'', ''x'')]
     = set [(''tags'', ''x''), (''system_tags'', ''s''), (''any_tags'', ''s'')]
   \<and> apply_filter
        [\<lparr>tags = Some [''x''], system_tags = Some [''s'']\<rparr>,
         \<lparr>tags = Some [''x''], system_tags = None\<rparr>,
         \<lparr>tags = Some [''s''], system_tags = Some [''s'']\<rparr>]
        (Some [(''any_tags'', ''s''), (''system_tags'', ''s''), (''tags'', ''x'')])
      = [\<lparr>tags = Some [''x''], system_tags = Some [''s'']\<rparr>]
   \<and> apply_filter
        [\<lparr>tags = Some [''x''], system_tags = Some [''s'']\<rparr>,
         \<lparr>tags = Some [''x''], system_tags = None\<rparr>,
         \<lparr>tags = Some [''s''], system_tags = Some [''s'']\<rparr>]
        (Some [(''tags'', ''x''), (''system_tags'', ''s''), (''any_tags'', ''s'')])
      = [\<lparr>tags = Some [''x''], system_tags = Some [''s'']\<rparr>]"
proof -
  let ?elts = "[\<lparr>tags = Some [''x''], system_tags = Some [''s'']\<rparr>,
         \<lparr>tags = Some [''x''], system_tags = None\<rparr>,
         \<lparr>tags = Some [''s''], system_tags = Some [''s'']\<rparr>]"
  have h: "set [(''any_tags'', ''s''), (''system_tags'', ''s''), (''tags'', ''x'')]
     = set [(''tags'', ''x''), (''system_tags'', ''s''), (''any_tags'', ''s'')]"
    by auto
  have e: "apply_filter ?elts
             (Some [(''tags'', ''x''), (''system_tags'', ''s''), (''any_tags'', ''s'')])
      = [\<lparr>tags = Some [''x''], system_tags = Some [''s'']\<rparr>]"
    by (simp add: apply_filter_spec spec_keeps_tags spec_keeps_system_tags spec_keeps_any
        get_tags_def get_system_tags_def)
  from apply_filter_order_independent [OF h, of ?elts] h e show ?thesis by simp
qed

section \<open>Claims about the reconstruction\<close>

text \<open>
  Claim C2, as amended. When every \<^verbatim>\<open>attempt\<close> record has a value that \<^verbatim>\<open>int\<close> accepts
  and every record carries a tag matching \<^verbatim>\<open>attempt_id:<int>\<close>, the reconstruction
  returns, in input order, exactly the records whose first matching tag carries the
  requested attempt number; the timestamps play no part.
\<close>

theorem reconstruct_explicit_tags:
  assumes "attempt_values_parse all_metadata" and "list_all has_attempt_tag all_metadata"
  shows "reconstruct_metadata_for_attempt all_metadata attempt =
     Inr (filter (\<lambda>v. first_attempt_tag (get_tags v) = Some attempt) all_metadata)"
  using assms by (simp add: reconstruct_parse)

theorem reconstruct_explicit_tags_witness:
  "attempt_values_parse
     [example_record ''attempt'' (PStr ''0'') 100 (Some [''attempt_id:0'']),
      example_record ''x'' (PStr ''v'') 150 (Some [''user:x'', ''attempt_id:0'']),
      example_record ''attempt'' (PStr ''1'') 500 (Some [''attempt_id:1'']),
      example_record ''x'' (PStr ''w'') 600 (Some [''attempt_id:1'', ''attempt_id:0''])]
   \<and> list_all has_attempt_tag
     [example_record ''attempt'' (PStr ''0'') 100 (Some [''attempt_id:0'']),
      example_record ''x'' (PStr ''v'') 150 (Some [''user:x'', ''attempt_id:0'']),
      example_record ''attempt'' (PStr ''1'') 500 (Some [''attempt_id:1'']),
      example_record ''x'' (PStr ''w'') 600 (Some [''attempt_id:1'', ''attempt_id:0''])]
   \<and> reconstruct_metadata_for_attempt
     [example_record ''attempt'' (PStr ''0'') 100 (Some [''attempt_id:0'']),
      example_record ''x'' (PStr ''v'') 150 (Some [''user:x'', ''attempt_id:0'']),
      example_record ''attempt'' (PStr ''1'') 500 (Some [''attempt_id:1'']),
      example_record ''x'' (PStr ''w'') 600 (Some [''attempt_id:1'', ''attempt_id:0''])] 0
     = Inr [example_record ''attempt'' (PStr ''0'') 100 (Some [''attempt_id:0'']),
            example_record ''x'' (PStr ''v'') 150 (Some [''user:x'', ''attempt_id:0''])]"
proof -
  let ?xs = "[example_record ''attempt'' (PStr ''0'') 100 (Some [''attempt_id:0'']),
      example_record ''x'' (PStr ''v'') 150 (Some [''user:x'', ''attempt_id:0'']),
      example_record ''attempt'' (PStr ''1'') 500 (Some [''attempt_id:1'']),
      example_record ''x'' (PStr ''w'') 600 (Some [''attempt_id:1'', ''attempt_id:0''])]"
  have p: "attempt_values_parse ?xs" by (simp add: eval_simps)
  have t: "list_all has_attempt_tag ?xs" by (simp add: eval_simps)
  from reconstruct_explicit_tags [OF p t, of 0] p t show ?thesis
    by (simp add: eval_simps)
qed

text \<open>
  The claim as it was stated fails: a single \<^verbatim>\<open>attempt\<close> record tagged
  \<^verbatim>\<open>attempt_id:0\<close> whose value is \<^verbatim>\<open>abc\<close> makes \<^verbatim>\<open>int(v['value'])\<close> raise. The
  second input shows why the first matching tag is the one that counts: a record tagged
  \<^verbatim>\<open>attempt_id:1\<close> and then \<^verbatim>\<open>attempt_id:0\<close> is not returned for attempt 0.
\<close>

theorem reconstruct_explicit_tags_counterexample:
  "list_all has_attempt_tag
     [example_record ''attempt'' (PStr ''abc'') 100 (Some [''attempt_id:0''])]
   \<and> reconstruct_metadata_for_attempt
        [example_record ''attempt'' (PStr ''abc'') 100 (Some [''attempt_id:0''])] 0
      = Inl (ValueError ''invalid literal for int() with base 10'')
   \<and> list_all has_attempt_tag
     [example_record ''x'' (PStr ''v'') 150 (Some [''attempt_id:1'', ''attempt_id:0''])]
   \<and> attempt_id_match ''attempt_id:0'' = Some 0
   \<and> reconstruct_metadata_for_attempt
        [example_record ''x'' (PStr ''v'') 150 (Some [''attempt_id:1'', ''attempt_id:0''])] 0
      = Inr []"
  by (simp add: reconstruct_metadata_for_attempt_def eval_simps)

text \<open>
  Claim C3, as amended. When every \<^verbatim>\<open>attempt\<close> record has a value that \<^verbatim>\<open>int\<close> accepts
  and some record carries no tag matching \<^verbatim>\<open>attempt_id:<int>\<close>, the tagged selection is
  dropped: the result is empty when no \<^verbatim>\<open>attempt\<close> record carries the requested number
  or when the start recorded for it is negative; otherwise it holds exactly the records
  with \<^verbatim>\<open>start <= ts_epoch < end\<close>, where \<^verbatim>\<open>start\<close> is the timestamp of the last
  \<^verbatim>\<open>attempt\<close> record for the requested number and \<^verbatim>\<open>end\<close> that of the last one for the
  next number, or 32503680000000 when there is none.
\<close>

theorem reconstruct_window:
  assumes "attempt_values_parse all_metadata" and "\<not> list_all has_attempt_tag all_metadata"
  shows "reconstruct_metadata_for_attempt all_metadata attempt =
     Inr (case attempt_start all_metadata attempt of
            None \<Rightarrow> []
          | Some start_ts \<Rightarrow>
              if start_ts < 0 then []
              else filter (\<lambda>v. start_ts \<le> ts_epoch v
                            \<and> ts_epoch v < (case attempt_start all_metadata (attempt + 1) of
                                             None \<Rightarrow> 32503680000000
                                           | Some end_ts \<Rightarrow> end_ts)) all_metadata)"
  using assms by (simp add: reconstruct_parse)

theorem reconstruct_window_witness:
  "attempt_values_parse
     [example_record ''attempt'' (PStr ''0'') 100 None,
      example_record ''x'' (PStr ''v'') 150 (Some [''user:x'']),
      example_record ''attempt'' (PStr ''1'') 500 (Some []),
      example_record ''x'' (PStr ''w'') 600 None]
   \<and> \<not> list_all has_attempt_tag
     [example_record ''attempt'' (PStr ''0'') 100 None,
      example_record ''x'' (PStr ''v'') 150 (Some [''user:x'']),
      example_record ''attempt'' (PStr ''1'') 500 (Some []),
      example_record ''x'' (PStr ''w'') 600 None]
   \<and> reconstruct_metadata_for_attempt
     [example_record ''attempt'' (PStr ''0'') 100 None,
      example_record ''x'' (PStr ''v'') 150 (Some [''user:x'']),
      example_record ''attempt'' (PStr ''1'') 500 (Some []),
      example_record ''x'' (PStr ''w'') 600 None] 0
     = Inr [example_record ''attempt'' (PStr ''0'') 100 None,
            example_record ''x'' (PStr ''v'') 150 (Some [''user:x''])]"
proof -
  let ?xs = "[example_record ''attempt'' (PStr ''0'') 100 None,
      example_record ''x'' (PStr ''v'') 150 (Some [''user:x'']),
      example_record ''attempt'' (PStr ''1'') 500 (Some []),
      example_record ''x'' (PStr ''w'') 600 None]"
  have p: "attempt_values_parse ?xs" by (simp add: eval_simps)
  have t: "\<not> list_all has_attempt_tag ?xs" by (simp add: eval_simps)
  from reconstruct_window [OF p t, of 0] p t show ?thesis
    by (simp add: eval_simps)
qed

text \<open>
  The claim as it was stated fails twice. An untagged \<^verbatim>\<open>attempt\<close> record with the value
  \<^verbatim>\<open>abc\<close> makes the reconstruction raise, where the claim promises the empty list.
  An untagged \<^verbatim>\<open>attempt\<close> record for attempt 0 with the timestamp -5 is the start of
  attempt 0 and lies in its own window, yet the result is empty.
\<close>

theorem reconstruct_window_counterexample:
  "\<not> list_all has_attempt_tag [example_record ''attempt'' (PStr ''abc'') 100 None]
   \<and> reconstruct_metadata_for_attempt [example_record ''attempt'' (PStr ''abc'') 100 None] 0
      = Inl (ValueError ''invalid literal for int() with base 10'')
   \<and> \<not> list_all has_attempt_tag [example_record ''attempt'' (PStr ''0'') (- 5) None]
   \<and> attempt_start [example_record ''attempt'' (PStr ''0'') (- 5) None] 0 = Some (- 5)
   \<and> reconstruct_metadata_for_attempt [example_record ''attempt'' (PStr ''0'') (- 5) None] 0
      = Inr []"
  by (simp add: reconstruct_metadata_for_attempt_def eval_simps)

text \<open>
  Claim C9. Filtering and reconstruction only select: the result of \<^verbatim>\<open>_apply_filter\<close> is
  a subsequence of its input, and so is every list that the reconstruction returns
  (the same records, in the same order, none repeated or made up). The reconstruction
  does return a list whenever every \<^verbatim>\<open>attempt\<close> value is accepted by \<^verbatim>\<open>int\<close>.
\<close>

theorem selection_only:
  "subseq (apply_filter elts filters) elts
   \<and> (\<forall>ys. reconstruct_metadata_for_attempt all_metadata attempt = Inr ys
         \<longrightarrow> subseq ys all_metadata)
   \<and> (attempt_values_parse all_metadata
         \<longrightarrow> \<not> isl (reconstruct_metadata_for_attempt all_metadata attempt))"
proof (intro conjI allI impI)
  show "subseq (apply_filter elts filters) elts"
    by (cases filters) (simp_all add: apply_filter_spec, simp add: apply_filter_def)
next
  fix ys
  assume r: "reconstruct_metadata_for_attempt all_metadata attempt = Inr ys"
  have p: "attempt_values_parse all_metadata"
  proof (rule ccontr)
    assume "\<not> attempt_values_parse all_metadata"
    from reconstruct_raises [OF this, of attempt] r show False by simp
  qed
  from r show "subseq ys all_metadata"
    unfolding reconstruct_parse [OF p]
    by (auto split: if_splits option.splits)
next
  assume "attempt_values_parse all_metadata"
  then show "\<not> isl (reconstruct_metadata_for_attempt all_metadata attempt)"
    by (simp add: reconstruct_parse)
qed

theorem selection_only_witness:
  "reconstruct_metadata_for_attempt
     [example_record ''attempt'' (PStr ''0'') 100 None,
      example_record ''x'' (PStr ''v'') 150 (Some [''user:x'']),
      example_record ''attempt'' (PStr ''1'') 500 None,
      example_record ''x'' (PStr ''w'') 600 (Some [''attempt_id:1''])] 1
     = Inr [example_record ''attempt'' (PStr ''1'') 500 None,
            example_record ''x'' (PStr ''w'') 600 (Some [''attempt_id:1''])]
   \<and> subseq
       [example_record ''attempt'' (PStr ''1'') 500 None,
        example_record ''x'' (PStr ''w'') 600 (Some [''attempt_id:1''])]
       [example_record ''attempt'' (PStr ''0'') 100 None,
        example_record ''x'' (PStr ''v'') 150 (Some [''user:x'']),
        example_record ''attempt'' (PStr ''1'') 500 None,
        example_record ''x'' (PStr ''w'') 600 (Some [''attempt_id:1''])]
   \<and> subseq
       (apply_filter
          [example_record ''attempt'' (PStr ''0'') 100 None,
           example_record ''x'' (PStr ''v'') 150 (Some [''user:x''])]
          (Some [(''tags'', ''user:x'')]))
       [example_record ''attempt'' (PStr ''0'') 100 None,
        example_record ''x'' (PStr ''v'') 150 (Some [''user:x''])]"
proof -
  let ?xs = "[example_record ''attempt'' (PStr ''0'') 100 None,
      example_record ''x'' (PStr ''v'') 150 (Some [''user:x'']),
      example_record ''attempt'' (PStr ''1'') 500 None,
      example_record ''x'' (PStr ''w'') 600 (Some [''attempt_id:1''])]"
  let ?es = "[example_record ''attempt'' (PStr ''0'') 100 None,
           example_record ''x'' (PStr ''v'') 150 (Some [''user:x''])]"
  have p: "attempt_values_parse ?xs" by (simp add: eval_simps)
  have r: "reconstruct_metadata_for_attempt ?xs 1
     = Inr [example_record ''attempt'' (PStr ''1'') 500 None,
            example_record ''x'' (PStr ''w'') 600 (Some [''attempt_id:1''])]"
    unfolding reconstruct_parse [OF p] by (simp add: eval_simps)
  from selection_only [of ?es "Some [(''tags'', ''user:x'')]" ?xs 1] r
  show ?thesis by simp
qed

section \<open>Properties of the sticky tags and the record builders\<close>

lemma set_set_update: "set (set_update s xs) = set s \<union> set xs"
  unfolding set_update_def by (induction xs arbitrary: s) auto

lemma distinct_set_update: "distinct s \<Longrightarrow> distinct (set_update s xs)"
  unfolding set_update_def by (induction xs arbitrary: s) auto

lemma truthy_Some: "truthy (Some xs) \<longleftrightarrow> xs \<noteq> []"
  by (cases xs) (simp_all add: truthy_def)

lemma sticky_tags_add:
  "set (sticky_tags (add_sticky_tags tgs sys self))
     = set (sticky_tags self) \<union> (case tgs of None \<Rightarrow> {} | Some ts \<Rightarrow> set ts)"
  by (cases tgs; cases sys)
     (auto simp: add_sticky_tags_def Let_def set_set_update truthy_def split: list.splits)

lemma sticky_sys_tags_add:
  "set (sticky_sys_tags (add_sticky_tags tgs sys self))
     = set (sticky_sys_tags self) \<union> (case sys of None \<Rightarrow> {} | Some ts \<Rightarrow> set ts)"
  by (cases tgs; cases sys)
     (auto simp: add_sticky_tags_def Let_def set_set_update truthy_def split: list.splits)

lemma artifacts_to_json_tags:
  "map get_tags (artifacts_to_json self user clock run_id step task attempt artifacts)
     = map (\<lambda>art. sticky_tags self) artifacts"
  "map get_system_tags (artifacts_to_json self user clock run_id step task attempt artifacts)
     = map (\<lambda>art. sticky_sys_tags self) artifacts"
  by (simp_all add: artifacts_to_json_def get_tags_def get_system_tags_def comp_def
      case_prod_beta map_replicate_const)



lemma length_artifacts_to_json:
  "length (artifacts_to_json self user clock run_id step task attempt artifacts) = length artifacts"
  by (simp add: artifacts_to_json_def)

lemma example_provider_sticky:
  "sticky_tags example_provider = []"
  "sticky_sys_tags example_provider
     = [''user:u'', ''runtime:dev'', ''python_version:3.8.0'', ''date:2021-10-01'',
        ''metaflow_version:2.4.0'']"
  by (simp_all add: example_provider_def init_provider_def add_sticky_tags_def truthy_def
      provider_tags_def set_update_def)

lemma artifact_record_tags:
  assumes "r \<in> set (artifacts_to_json self user clock run_id step task attempt artifacts)"
  shows "get_tags r = sticky_tags self" and "get_system_tags r = sticky_sys_tags self"
proof -
  from assms have
    "get_tags r \<in> set (map get_tags
        (artifacts_to_json self user clock run_id step task attempt artifacts))"
    "get_system_tags r \<in> set (map get_system_tags
        (artifacts_to_json self user clock run_id step task attempt artifacts))"
    by simp_all
  then show "get_tags r = sticky_tags self" and "get_system_tags r = sticky_sys_tags self"
    unfolding artifacts_to_json_tags by auto
qed

lemma example_provider_added:
  "sticky_tags (add_sticky_tags (Some [''env:prod'']) None example_provider) = [''env:prod'']"
  by (simp add: add_sticky_tags_def truthy_def set_update_def example_provider_sticky)

lemma legal_examples:
  "legal_aggregation ''root'' ''flow''" "legal_aggregation ''task'' ''metadata''"
  "\<not> legal_aggregation ''artifact'' ''task''" "\<not> legal_aggregation ''run'' ''metadata''"
  "\<not> legal_aggregation ''bogus'' ''flow''" "\<not> legal_aggregation ''metadata'' ''self''"
  by (simp_all add: legal_aggregation_def obj_order_values, simp add: obj_order_def)

section \<open>Claims about the query entry point\<close>

text \<open>
  Claim C1, as amended. For an attempt that passes the attempt check (it is \<^verbatim>\<open>None\<close>, or
  \<^verbatim>\<open>int\<close> accepts it and gives a number that is not negative), and for any filters and
  locator arguments, \<^verbatim>\<open>get_object\<close> calls the backend if and only if both names are
  in the table, the order of \<^verbatim>\<open>obj_type\<close> is at most 5 and below the order of
  \<^verbatim>\<open>sub_type\<close>, and \<^verbatim>\<open>sub_type\<close> is \<^verbatim>\<open>metadata\<close> only when \<^verbatim>\<open>obj_type\<close> is \<^verbatim>\<open>task\<close>.
  It then makes exactly one call, with the two names, their orders, the filters and the
  checked attempt, and returns the backend's result as it is unless metadata of one
  attempt was asked for. In every other case it raises \<^verbatim>\<open>MetaflowInternalError\<close> and
  the backend is not called.
\<close>

theorem get_object_delegates_iff:
  assumes "check_attempt attempt = Inr attempt_int"
  shows "(snd (get_object B obj_type sub_type filters attempt args) \<noteq> []
            \<longleftrightarrow> legal_aggregation obj_type sub_type)
     \<and> (legal_aggregation obj_type sub_type \<longrightarrow>
           snd (get_object B obj_type sub_type filters attempt args)
             = [expected_call obj_type sub_type filters attempt_int args])
     \<and> (legal_aggregation obj_type sub_type \<and> (attempt_int = None \<or> sub_type \<noteq> ''metadata'') \<longrightarrow>
           fst (get_object B obj_type sub_type filters attempt args)
             = B (expected_call obj_type sub_type filters attempt_int args))
     \<and> (\<not> legal_aggregation obj_type sub_type \<longrightarrow>
           (\<exists>msg. get_object B obj_type sub_type filters attempt args
              = (Inl (MetaflowInternalError msg), [])))"
proof (cases "legal_aggregation obj_type sub_type")
  case True
  from get_object_legal_calls [OF True assms, of B filters args]
    get_object_legal_result [OF True assms, of B filters args] True
  show ?thesis by simp
next
  case False
  from get_object_illegal [OF False, of B filters attempt args] False
  show ?thesis by auto
qed

theorem get_object_delegates_iff_witness:
  "check_attempt (Some (PStr ''0'')) = Inr (Some 0)
   \<and> legal_aggregation ''root'' ''flow''
   \<and> get_object empty_backend ''root'' ''flow'' None (Some (PStr ''0'')) []
       = (Inr (Records []), [expected_call ''root'' ''flow'' None (Some 0) []])
   \<and> \<not> legal_aggregation ''artifact'' ''task''
   \<and> get_object empty_backend ''artifact'' ''task'' None (Some (PStr ''0'')) []
       = (Inl (MetaflowInternalError ''Subtype task not allowed for artifact''), [])"
proof -
  have a: "check_attempt (Some (PStr ''0'')) = Inr (Some 0)"
    by (simp add: check_attempt_def py_int_0)
  have e: "get_object empty_backend ''artifact'' ''task'' None (Some (PStr ''0'')) []
       = (Inl (MetaflowInternalError ''Subtype task not allowed for artifact''), [])"
    by (simp add: get_object_def obj_order_values)
  from get_object_delegates_iff [OF a, of empty_backend "''root''" "''flow''" None "[]"]
    get_object_delegates_iff [OF a, of empty_backend "''artifact''" "''task''" None "[]"]
    a e legal_examples
  show ?thesis
    by (simp add: empty_backend_def prod_eq_iff)
qed

text \<open>
  The claim as it was stated, for any attempt, fails: \<^verbatim>\<open>root\<close> and \<^verbatim>\<open>flow\<close> are a legal
  pair, yet with the attempt \<^verbatim>\<open>abc\<close> the call raises \<^verbatim>\<open>ValueError\<close> and the backend is
  not reached.
\<close>

theorem get_object_delegates_iff_counterexample:
  "legal_aggregation ''root'' ''flow''
   \<and> get_object empty_backend ''root'' ''flow'' None (Some (PStr ''abc'')) []
       = (Inl (ValueError ''Attempt can only be a positive integer''), [])"
  by (simp add: get_object_def obj_order_values check_attempt_def py_int_abc legal_examples)




section \<open>Claims about sticky tags\<close>

text \<open>
  Claim C8. Sticky tags are added for the records built afterwards, and never removed. A
  tag passed to \<^verbatim>\<open>add_sticky_tags\<close> as a tag is in the tags of every artifact record
  that \<^verbatim>\<open>_artifacts_to_json\<close> builds after the call, and one passed as a system tag is
  in their system tags; a tag already sticky stays in the records built after any
  later call. A tag in neither sticky set is in no artifact record built from that
  state, so not in the records built before it is added. One record is built for each
  artifact, and a call of \<^verbatim>\<open>add_sticky_tags\<close> keeps every tag of both sticky sets.
\<close>

theorem sticky_tags_prospective:
  "(t \<in> set ts \<longrightarrow>
      (\<forall>r \<in> set (artifacts_to_json (add_sticky_tags (Some ts) sys self)
                    user clock run_id step task attempt artifacts).
         t \<in> set (get_tags r)))
   \<and> (t \<in> set ss \<longrightarrow>
      (\<forall>r \<in> set (artifacts_to_json (add_sticky_tags tgs (Some ss) self)
                    user clock run_id step task attempt artifacts).
         t \<in> set (get_system_tags r)))
   \<and> (t \<in> set (sticky_tags self) \<longrightarrow>
      (\<forall>r \<in> set (artifacts_to_json (add_sticky_tags tgs sys self)
                    user clock run_id step task attempt artifacts).
         t \<in> set (get_tags r)))
   \<and> (t \<notin> set (sticky_tags self) \<and> t \<notin> set (sticky_sys_tags self) \<longrightarrow>
      (\<forall>r \<in> set (artifacts_to_json self user clock run_id step task attempt artifacts).
         t \<notin> set (get_tags r) \<and> t \<notin> set (get_system_tags r)))
   \<and> length (artifacts_to_json self user clock run_id step task attempt artifacts)
       = length artifacts
   \<and> set (sticky_tags self) \<subseteq> set (sticky_tags (add_sticky_tags tgs sys self))
   \<and> set (sticky_sys_tags self) \<subseteq> set (sticky_sys_tags (add_sticky_tags tgs sys self))"
proof (intro conjI impI ballI subsetI)
  fix r
  assume "t \<in> set ts"
    and "r \<in> set (artifacts_to_json (add_sticky_tags (Some ts) sys self)
                    user clock run_id step task attempt artifacts)"
  then show "t \<in> set (get_tags r)"
    by (simp add: artifact_record_tags sticky_tags_add)
next
  fix r
  assume "t \<in> set ss"
    and "r \<in> set (artifacts_to_json (add_sticky_tags tgs (Some ss) self)
                    user clock run_id step task attempt artifacts)"
  then show "t \<in> set (get_system_tags r)"
    by (simp add: artifact_record_tags sticky_sys_tags_add)
next
  fix r
  assume "t \<in> set (sticky_tags self)"
    and "r \<in> set (artifacts_to_json (add_sticky_tags tgs sys self)
                    user clock run_id step task attempt artifacts)"
  then show "t \<in> set (get_tags r)"
    by (simp add: artifact_record_tags sticky_tags_add)
next
  fix r
  assume a: "t \<notin> set (sticky_tags self) \<and> t \<notin> set (sticky_sys_tags self)"
    and r: "r \<in> set (artifacts_to_json self user clock run_id step task attempt artifacts)"
  from a r show "t \<notin> set (get_tags r)"
    by (simp add: artifact_record_tags)
  from a r show "t \<notin> set (get_system_tags r)"
    by (simp add: artifact_record_tags)
next
  show "length (artifacts_to_json self user clock run_id step task attempt artifacts)
       = length artifacts"
    by (rule length_artifacts_to_json)
next
  fix x
  assume "x \<in> set (sticky_tags self)"
  then show "x \<in> set (sticky_tags (add_sticky_tags tgs sys self))"
    by (simp add: sticky_tags_add)
next
  fix x
  assume "x \<in> set (sticky_sys_tags self)"
  then show "x \<in> set (sticky_sys_tags (add_sticky_tags tgs sys self))"
    by (simp add: sticky_sys_tags_add)
qed

theorem sticky_tags_prospective_witness:
  "''env:prod'' \<in> set [''env:prod'']
   \<and> ''env:prod'' \<notin> set (sticky_tags example_provider)
   \<and> ''env:prod'' \<notin> set (sticky_sys_tags example_provider)
   \<and> map get_tags
       (artifacts_to_json example_provider
          ''u'' (\<lambda>i. 0) (PInt 1) ''start'' (PInt 2) 0 [example_artifact]) = [[]]
   \<and> map get_tags
       (artifacts_to_json (add_sticky_tags (Some [''env:prod'']) None example_provider)
          ''u'' (\<lambda>i. 0) (PInt 1) ''start'' (PInt 2) 0 [example_artifact]) = [[''env:prod'']]"
proof -
  have a: "''env:prod'' \<in> set [''env:prod'']" by simp
  have b: "''env:prod'' \<notin> set (sticky_tags example_provider)"
    "''env:prod'' \<notin> set (sticky_sys_tags example_provider)"
    by (simp_all add: example_provider_sticky)
  from sticky_tags_prospective
         [of "''env:prod''" "[''env:prod'']" None example_provider "''u''" "\<lambda>i. 0" "PInt 1"
             "''start''" "PInt 2" 0 "[example_artifact]" "[]" None]
       a b
  show ?thesis
    by (simp add: artifacts_to_json_tags example_provider_sticky example_provider_added)
qed



end
